theory Spec2Isabelle
  imports Complex_Main
begin

section \<open>Noise contrastive estimation loss (nce.py)\<close>

text \<open>
  A shallow embedding of \<^verbatim>\<open>src/nce.py\<close>: the classes \<^verbatim>\<open>IndexLinear\<close> and
  \<^verbatim>\<open>NCELoss\<close>, their constructors and their forward passes.

  Conventions of the embedding.
  \<^item> A torch tensor is its device tag together with its contents: a vector is a list, a
    matrix a list of rows. Floating point numbers are idealised as \<^typ>\<open>real\<close>, so
    \<^verbatim>\<open>exp\<close>, \<^verbatim>\<open>log\<close> and division are the exact ones; rounding, overflow and NaN are
    outside the model.
  \<^item> Every exception the source or the torch calls it makes can raise is a value of
    \<open>error\<close>; a function that can raise returns \<open>error + 'a\<close>.
  \<^item> \<^verbatim>\<open>torch.multinomial\<close> is random: the draw of the example with index \<open>idx\<close> is
    supplied from outside as \<open>sampler idx\<close>, either an error of the sampler or the drawn
    indices.
  \<^item> The torch operations are those of the torch 0.x \<^verbatim>\<open>Variable\<close> interface the source is
    written against: operands of one operation live on one device, and the truth value
    of a non-empty tensor is an error.
\<close>

subsection \<open>Errors, devices, tensors\<close>

datatype error =
    NameError string
  | AssertionError
  | CudaError
  | DeviceMismatch
  | IndexError
  | ShapeError
  | AmbiguousTruth

datatype device = CPU | CUDA

datatype 'a tensor = Tensor (dev: device) (dat: 'a)

type_synonym vec = "real list tensor"
type_synonym mat = "real list list tensor"
type_synonym idxs = "nat list tensor"

text \<open>The execution environment: whether a CUDA device can be used.\<close>

record env =
  cuda_available :: bool

text \<open>Sequencing of computations that can raise: the first error ends the computation.\<close>

definition bind_err :: "error + 'a \<Rightarrow> ('a \<Rightarrow> error + 'b) \<Rightarrow> error + 'b" where
  "bind_err r f = (case r of Inl e \<Rightarrow> Inl e | Inr x \<Rightarrow> f x)"

subsection \<open>The torch operations the source calls\<close>

text \<open>\<^verbatim>\<open>torch.zeros(n)\<close> and \<^verbatim>\<open>torch.zeros(n, k)\<close>: fresh host tensors.\<close>

definition zeros :: "nat \<Rightarrow> vec" where
  "zeros n = Tensor CPU (replicate n 0)"

definition zeros2 :: "nat \<Rightarrow> nat \<Rightarrow> mat" where
  "zeros2 n k = Tensor CPU (replicate n (replicate k 0))"

text \<open>\<^verbatim>\<open>t.cuda()\<close> moves a tensor to the CUDA device and raises where there is none;
  \<^verbatim>\<open>torch.cuda.synchronize()\<close> raises likewise.\<close>

definition cuda :: "env \<Rightarrow> 'a tensor \<Rightarrow> error + 'a tensor" where
  "cuda e t = (if cuda_available e then Inr (Tensor CUDA (dat t)) else Inl CudaError)"

definition synchronize :: "env \<Rightarrow> error + unit" where
  "synchronize e = (if cuda_available e then Inr () else Inl CudaError)"

text \<open>\<^verbatim>\<open>torch.cat([a, b])\<close> of two index vectors.\<close>

definition cat :: "idxs \<Rightarrow> idxs \<Rightarrow> error + idxs" where
  "cat a b =
     (if dev a \<noteq> dev b then Inl DeviceMismatch
      else Inr (Tensor (dev a) (dat a @ dat b)))"

text \<open>\<^verbatim>\<open>t[indices]\<close> with an index tensor: the entries (rows, for a matrix) at the
  indices, in the order of the indices, one per occurrence.\<close>

definition index_select :: "'a list tensor \<Rightarrow> idxs \<Rightarrow> error + 'a list tensor" where
  "index_select t ix =
     (if dev ix \<noteq> dev t then Inl DeviceMismatch
      else if list_all (\<lambda>i. i < length (dat t)) (dat ix)
           then Inr (Tensor (dev t) (map (\<lambda>i. dat t ! i) (dat ix)))
           else Inl IndexError)"

text \<open>\<^verbatim>\<open>t[idx]\<close> with an integer: one entry, or one row.\<close>

definition select :: "'a list tensor \<Rightarrow> nat \<Rightarrow> error + 'a tensor" where
  "select t idx =
     (if idx < length (dat t) then Inr (Tensor (dev t) (dat t ! idx)) else Inl IndexError)"

text \<open>\<^verbatim>\<open>t[idx] = v\<close>: the entry is overwritten in place by a copy of \<open>v\<close> (a copy may
  cross devices). For a matrix the row written has the length of the row replaced.\<close>

definition setitem :: "vec \<Rightarrow> nat \<Rightarrow> real \<Rightarrow> error + vec" where
  "setitem t idx v =
     (if idx < length (dat t) then Inr (Tensor (dev t) ((dat t)[idx := v]))
      else Inl IndexError)"

definition setrow :: "mat \<Rightarrow> nat \<Rightarrow> real list \<Rightarrow> error + mat" where
  "setrow t idx r =
     (if \<not> idx < length (dat t) then Inl IndexError
      else if length r \<noteq> length (dat t ! idx) then Inl ShapeError
      else Inr (Tensor (dev t) ((dat t)[idx := r])))"

text \<open>Elementwise operations of two tensors of one shape on one device.\<close>

definition binop :: "(real \<Rightarrow> real \<Rightarrow> real) \<Rightarrow> vec \<Rightarrow> vec \<Rightarrow> error + vec" where
  "binop f a b =
     (if dev a \<noteq> dev b then Inl DeviceMismatch
      else if length (dat a) \<noteq> length (dat b) then Inl ShapeError
      else Inr (Tensor (dev a) (map2 f (dat a) (dat b))))"

definition binop2 :: "(real \<Rightarrow> real \<Rightarrow> real) \<Rightarrow> mat \<Rightarrow> mat \<Rightarrow> error + mat" where
  "binop2 f a b =
     (if dev a \<noteq> dev b then Inl DeviceMismatch
      else if map length (dat a) \<noteq> map length (dat b) then Inl ShapeError
      else Inr (Tensor (dev a) (map2 (map2 f) (dat a) (dat b))))"

text \<open>Elementwise operations of one tensor: a scalar factor, \<^verbatim>\<open>torch.log\<close>.\<close>

definition tmap :: "(real \<Rightarrow> real) \<Rightarrow> vec \<Rightarrow> vec" where
  "tmap f a = Tensor (dev a) (map f (dat a))"

definition tmap2 :: "(real \<Rightarrow> real) \<Rightarrow> mat \<Rightarrow> mat" where
  "tmap2 f a = Tensor (dev a) (map (map f) (dat a))"

text \<open>\<^verbatim>\<open>torch.sum(t, 1)\<close>: the sum of every row; \<^verbatim>\<open>torch.sum(t)\<close>: the sum of all.\<close>

definition sum_dim1 :: "mat \<Rightarrow> vec" where
  "sum_dim1 a = Tensor (dev a) (map sum_list (dat a))"

definition tsum :: "vec \<Rightarrow> real" where
  "tsum a = sum_list (dat a)"

text \<open>\<^verbatim>\<open>v.unsqueeze(0)\<close> makes a one-row matrix of a vector; \<^verbatim>\<open>m.view(-1)\<close> flattens.\<close>

definition unsqueeze0 :: "vec \<Rightarrow> mat" where
  "unsqueeze0 v = Tensor (dev v) [dat v]"

definition view_flat :: "mat \<Rightarrow> vec" where
  "view_flat a = Tensor (dev a) (concat (dat a))"

text \<open>\<^verbatim>\<open>F.linear(input, weight, bias)\<close>: every row \<open>x\<close> of the input is mapped to the
  vector of \<open>dot x w + b\<close> over the rows \<open>w\<close> of the weight and the entries \<open>b\<close> of the
  bias.\<close>

definition dot :: "real list \<Rightarrow> real list \<Rightarrow> real" where
  "dot x w = sum_list (map2 (*) x w)"

definition F_linear :: "mat \<Rightarrow> mat \<Rightarrow> vec \<Rightarrow> error + mat" where
  "F_linear inp w b =
     (if dev inp \<noteq> dev w \<or> dev inp \<noteq> dev b then Inl DeviceMismatch
      else if \<not> list_all (\<lambda>x. list_all (\<lambda>r. length r = length x) (dat w)) (dat inp)
              \<or> length (dat b) \<noteq> length (dat w)
           then Inl ShapeError
      else Inr (Tensor (dev inp)
             (map (\<lambda>x. map2 (\<lambda>r c. dot x r + c) (dat w) (dat b)) (dat inp))))"

subsection \<open>IndexLinear\<close>

record IndexLinear =
  weight :: mat
  bias :: vec

text \<open>\<^verbatim>\<open>IndexLinear.forward\<close> (lines 129 to 131).\<close>

definition IndexLinear_forward :: "IndexLinear \<Rightarrow> mat \<Rightarrow> idxs \<Rightarrow> error + mat" where
  "IndexLinear_forward self inp indices =
     bind_err (index_select (weight self) indices) (\<lambda>w.
     bind_err (index_select (bias self) indices) (\<lambda>b.
     F_linear inp w b))"

text \<open>The specification's reading of the indexed projection: the dense projection onto
  the whole vocabulary, and then the entries at the indices gathered from every row.\<close>

definition gather :: "mat \<Rightarrow> nat \<Rightarrow> idxs \<Rightarrow> error + mat" where
  "gather out v indices =
     (if dev indices \<noteq> dev out then Inl DeviceMismatch
      else if list_all (\<lambda>i. i < v) (dat indices)
           then Inr (Tensor (dev out) (map (\<lambda>row. map (\<lambda>i. row ! i) (dat indices)) (dat out)))
           else Inl IndexError)"

definition dense_then_gather :: "IndexLinear \<Rightarrow> mat \<Rightarrow> idxs \<Rightarrow> error + mat" where
  "dense_then_gather self inp indices =
     bind_err (F_linear inp (weight self) (bias self)) (\<lambda>out.
     gather out (length (dat (weight self))) indices)"

text \<open>A layer of \<open>E\<close> input features: every weight row has \<open>E\<close> entries, there is one
  bias entry per row, and both live on one device.\<close>

definition layer_shape :: "IndexLinear \<Rightarrow> nat \<Rightarrow> bool" where
  "layer_shape self E =
     (list_all (\<lambda>r. length r = E) (dat (weight self))
      \<and> length (dat (bias self)) = length (dat (weight self))
      \<and> dev (bias self) = dev (weight self))"

subsection \<open>NCELoss: construction\<close>

record NCELoss =
  noise :: vec
  noise_ratio :: nat
  norm_term :: real
  ntokens :: nat
  size_average :: bool
  decoder :: IndexLinear

text \<open>\<^verbatim>\<open>IndexLinear(emb_size, ntokens)\<close> allocates a host weight of \<open>ntokens\<close> rows and
  \<open>emb_size\<close> columns and a host bias of \<open>ntokens\<close> entries. torch fills them with
  random initial values: \<open>iw i j\<close> and \<open>ib i\<close> stand for the values drawn.\<close>

definition new_IndexLinear :: "nat \<Rightarrow> nat \<Rightarrow> (nat \<Rightarrow> nat \<Rightarrow> real) \<Rightarrow> (nat \<Rightarrow> real) \<Rightarrow> IndexLinear" where
  "new_IndexLinear in_features out_features iw ib =
     \<lparr>weight = Tensor CPU (map (\<lambda>i. map (iw i) [0..<in_features]) [0..<out_features]),
      bias = Tensor CPU (map ib [0..<out_features])\<rparr>"

text \<open>The truth value of a tensor, which \<^verbatim>\<open>if decoder_weight:\<close> asks for: an empty tensor
  is false, and a tensor with entries has no truth value (torch raises
  "bool value of non-empty ... is ambiguous").\<close>

definition tensor_truth :: "mat \<Rightarrow> error + bool" where
  "tensor_truth t = (if concat (dat t) = [] then Inr False else Inl AmbiguousTruth)"

text \<open>\<^verbatim>\<open>NCELoss.__init__\<close> (lines 42 to 61). \<^verbatim>\<open>None\<close> is false.\<close>

definition init ::
  "nat \<Rightarrow> nat \<Rightarrow> vec \<Rightarrow> nat \<Rightarrow> real \<Rightarrow> bool \<Rightarrow> mat option
     \<Rightarrow> (nat \<Rightarrow> nat \<Rightarrow> real) \<Rightarrow> (nat \<Rightarrow> real) \<Rightarrow> error + NCELoss" where
  "init ntokens0 emb_size noise0 noise_ratio0 norm_term0 size_average0 decoder_weight iw ib =
     (let self = \<lparr>noise = noise0, noise_ratio = noise_ratio0, norm_term = norm_term0,
                  ntokens = ntokens0, size_average = size_average0,
                  decoder = new_IndexLinear emb_size ntokens0 iw ib\<rparr>
      in case decoder_weight of
           None \<Rightarrow> Inr self
         | Some w \<Rightarrow>
             bind_err (tensor_truth w) (\<lambda>tied.
               if tied then Inr (self\<lparr>decoder := (decoder self)\<lparr>weight := w\<rparr>\<rparr>)
               else Inr self))"

text \<open>The defaults of the constructor's signature: \<^verbatim>\<open>noise_ratio=10, norm_term=9,
  size_average=True, decoder_weight=None\<close>.\<close>

definition init_default ::
  "nat \<Rightarrow> nat \<Rightarrow> vec \<Rightarrow> (nat \<Rightarrow> nat \<Rightarrow> real) \<Rightarrow> (nat \<Rightarrow> real) \<Rightarrow> error + NCELoss" where
  "init_default ntokens0 emb_size noise0 iw ib =
     init ntokens0 emb_size noise0 10 9 True None iw ib"

subsection \<open>NCELoss: the forward pass\<close>

text \<open>\<^verbatim>\<open>NCELoss._get_prob\<close> (lines 110 to 115).\<close>

definition get_prob :: "NCELoss \<Rightarrow> vec \<Rightarrow> idxs \<Rightarrow> idxs \<Rightarrow> error + real \<times> real list" where
  "get_prob self embedding target_idx noise_idx =
     bind_err (cat target_idx noise_idx) (\<lambda>indices.
     bind_err (IndexLinear_forward (decoder self) (unsqueeze0 embedding) indices) (\<lambda>out.
     let probs = view_flat out;
         probs = tmap exp (tmap (\<lambda>l. l - norm_term self) probs)
     in case dat probs of
          [] \<Rightarrow> Inl IndexError
        | p # ps \<Rightarrow> Inr (p, ps)))"

text \<open>\<^verbatim>\<open>torch.multinomial(self.noise, self.noise_ratio, replacement=True)\<close>: the indices
  drawn live on the device of the noise distribution.\<close>

definition multinomial :: "vec \<Rightarrow> nat \<Rightarrow> error + nat list \<Rightarrow> error + idxs" where
  "multinomial probs k drawn =
     (case drawn of Inl e \<Rightarrow> Inl e | Inr d \<Rightarrow> Inr (Tensor (dev probs) d))"

text \<open>The body of the loop over the examples (lines 86 to 94). \<open>tdev\<close> is the device of
  \<^verbatim>\<open>target\<close>, whose entry \<^verbatim>\<open>target_idx\<close> is a tensor of one index.\<close>

definition loop_body ::
  "env \<Rightarrow> NCELoss \<Rightarrow> mat \<Rightarrow> device \<Rightarrow> (nat \<Rightarrow> error + nat list) \<Rightarrow> nat \<times> nat
     \<Rightarrow> vec \<times> mat \<times> mat \<Rightarrow> error + vec \<times> mat \<times> mat" where
  "loop_body e self inp tdev sampler it bufs =
     (case it of (idx, target_idx) \<Rightarrow>
      case bufs of (data_prob, noise_in_data_probs, noise_probs) \<Rightarrow>
        bind_err (multinomial (noise self) (noise_ratio self) (sampler idx)) (\<lambda>noise_samples.
        bind_err (synchronize e) (\<lambda>_.
        bind_err (select inp idx) (\<lambda>embedding.
        bind_err (get_prob self embedding (Tensor tdev [target_idx]) noise_samples) (\<lambda>pr.
        bind_err (setitem data_prob idx (fst pr)) (\<lambda>data_prob.
        bind_err (setrow noise_in_data_probs idx (snd pr)) (\<lambda>noise_in_data_probs.
        bind_err (synchronize e) (\<lambda>_.
        bind_err (index_select (noise self) noise_samples) (\<lambda>np.
        bind_err (setrow noise_probs idx (dat np)) (\<lambda>noise_probs.
        bind_err (synchronize e) (\<lambda>_.
        Inr (data_prob, noise_in_data_probs, noise_probs))))))))))))"

fun loop ::
  "env \<Rightarrow> NCELoss \<Rightarrow> mat \<Rightarrow> device \<Rightarrow> (nat \<Rightarrow> error + nat list) \<Rightarrow> (nat \<times> nat) list
     \<Rightarrow> vec \<times> mat \<times> mat \<Rightarrow> error + vec \<times> mat \<times> mat" where
  "loop e self inp tdev sampler [] bufs = Inr bufs"
| "loop e self inp tdev sampler (it # its) bufs =
     bind_err (loop_body e self inp tdev sampler it bufs) (\<lambda>bufs'.
     loop e self inp tdev sampler its bufs')"

text \<open>The data term of every example (lines 96 to 98). Division and logarithm are the
  exact ones of the reals: the model gives the value the source computes up to the
  rounding of its floating point numbers, and says nothing about the order of two
  rounded values (a quotient that rounds to one, an exponential that underflows).\<close>

definition rnn_loss :: "NCELoss \<Rightarrow> vec \<Rightarrow> idxs \<Rightarrow> error + vec" where
  "rnn_loss self data_prob target =
     bind_err (index_select (noise self) target) (\<lambda>nt.
     bind_err (binop (+) data_prob (tmap (\<lambda>p. real (noise_ratio self) * p) nt)) (\<lambda>den.
     bind_err (binop (/) data_prob den) (\<lambda>q.
     Inr (tmap ln q))))"

text \<open>The noise term of every example (lines 100 to 102).\<close>

definition noise_loss :: "NCELoss \<Rightarrow> mat \<Rightarrow> mat \<Rightarrow> error + vec" where
  "noise_loss self noise_probs noise_in_data_probs =
     (let knp = tmap2 (\<lambda>p. real (noise_ratio self) * p) noise_probs in
      bind_err (binop2 (+) noise_in_data_probs knp) (\<lambda>den.
      bind_err (binop2 (/) knp den) (\<lambda>q.
      Inr (sum_dim1 (tmap2 ln q)))))"

text \<open>\<^verbatim>\<open>NCELoss.forward\<close> (lines 64 to 108), as the function the decorator wraps.\<close>

definition forward ::
  "env \<Rightarrow> NCELoss \<Rightarrow> mat \<Rightarrow> idxs \<Rightarrow> (nat \<Rightarrow> error + nat list) \<Rightarrow> error + real" where
  "forward e self inp target sampler =
     (if length (dat inp) \<noteq> length (dat target) then Inl AssertionError
      else
        bind_err (cuda e (zeros (length (dat target)))) (\<lambda>data_prob.
        bind_err (cuda e (zeros2 (length (dat target)) (noise_ratio self))) (\<lambda>noise_in_data_probs.
        bind_err (cuda e (zeros2 (length (dat target)) (noise_ratio self))) (\<lambda>noise_probs.
        bind_err (synchronize e) (\<lambda>_.
        bind_err (loop e self inp (dev target) sampler (enumerate 0 (dat target))
                    (data_prob, noise_in_data_probs, noise_probs)) (\<lambda>bufs.
        bind_err (rnn_loss self (fst bufs) target) (\<lambda>rl.
        bind_err (noise_loss self (snd (snd bufs)) (fst (snd bufs))) (\<lambda>nl.
        bind_err (binop (+) rl nl) (\<lambda>s.
        let loss = - 1 * tsum s in
        Inr (if size_average self then loss / real (length (dat target)) else loss))))))))))"

subsection \<open>The loss of the specification\<close>

text \<open>The formulas of the specification, per example: the projection score of a
  vocabulary index, its pseudo probability under the model, the data term and the noise
  term.\<close>

definition logit :: "IndexLinear \<Rightarrow> real list \<Rightarrow> nat \<Rightarrow> real" where
  "logit lin x i = dot x (dat (weight lin) ! i) + dat (bias lin) ! i"

definition pseudo_prob :: "NCELoss \<Rightarrow> real list \<Rightarrow> nat \<Rightarrow> real" where
  "pseudo_prob self x i = exp (logit (decoder self) x i - norm_term self)"

definition noise_probability :: "NCELoss \<Rightarrow> nat \<Rightarrow> real" where
  "noise_probability self i = dat (noise self) ! i"

definition data_term :: "NCELoss \<Rightarrow> real list \<Rightarrow> nat \<Rightarrow> real" where
  "data_term self x t =
     ln (pseudo_prob self x t
         / (pseudo_prob self x t + real (noise_ratio self) * noise_probability self t))"

definition noise_term :: "NCELoss \<Rightarrow> real list \<Rightarrow> nat list \<Rightarrow> real" where
  "noise_term self x d =
     sum_list (map (\<lambda>j. ln ((real (noise_ratio self) * noise_probability self j)
                            / (pseudo_prob self x j
                               + real (noise_ratio self) * noise_probability self j))) d)"

text \<open>The noise samples of a call: the draw of every example, in the order of the
  examples.\<close>

definition draw_of :: "(nat \<Rightarrow> error + nat list) \<Rightarrow> nat \<Rightarrow> nat list" where
  "draw_of sampler idx = (case sampler idx of Inl _ \<Rightarrow> [] | Inr d \<Rightarrow> d)"

definition draws_of :: "(nat \<Rightarrow> error + nat list) \<Rightarrow> nat \<Rightarrow> nat list list" where
  "draws_of sampler n = map (draw_of sampler) [0..<n]"

definition nce_loss_sum :: "NCELoss \<Rightarrow> real list list \<Rightarrow> nat list \<Rightarrow> nat list list \<Rightarrow> real" where
  "nce_loss_sum self xs ts ds =
     - sum_list (map (\<lambda>(x, t, d). data_term self x t + noise_term self x d)
                     (zip xs (zip ts ds)))"

definition nce_loss_spec :: "NCELoss \<Rightarrow> real list list \<Rightarrow> nat list \<Rightarrow> nat list list \<Rightarrow> real" where
  "nce_loss_spec self xs ts ds =
     (if size_average self then nce_loss_sum self xs ts ds / real (length ts)
      else nce_loss_sum self xs ts ds)"

text \<open>What a forward call needs to go through: a CUDA device with every tensor on it,
  as many embeddings as targets, embeddings as long as the weight rows, a noise
  distribution over the vocabulary of the decoder, targets in the vocabulary, and for
  every example a draw of \<open>noise_ratio\<close> indices of the vocabulary.\<close>

definition valid_draw :: "NCELoss \<Rightarrow> error + nat list \<Rightarrow> bool" where
  "valid_draw self r =
     (case r of
        Inl _ \<Rightarrow> False
      | Inr d \<Rightarrow> length d = noise_ratio self
                 \<and> list_all (\<lambda>j. j < length (dat (noise self))) d)"

definition forward_ready ::
  "env \<Rightarrow> NCELoss \<Rightarrow> mat \<Rightarrow> idxs \<Rightarrow> (nat \<Rightarrow> error + nat list) \<Rightarrow> bool" where
  "forward_ready e self inp target sampler =
     (cuda_available e
      \<and> dev inp = CUDA \<and> dev target = CUDA \<and> dev (noise self) = CUDA
      \<and> dev (weight (decoder self)) = CUDA
      \<and> length (dat inp) = length (dat target)
      \<and> list_all (\<lambda>x. layer_shape (decoder self) (length x)) (dat inp)
      \<and> length (dat (noise self)) = length (dat (weight (decoder self)))
      \<and> list_all (\<lambda>t. t < length (dat (noise self))) (dat target)
      \<and> list_all (\<lambda>idx. valid_draw self (sampler idx)) [0..<length (dat target)])"

subsection \<open>Loading the module\<close>

text \<open>
  Python runs the statements of a module in order when the module is imported. A
  \<^verbatim>\<open>def\<close> evaluates its decorators (not its body) and binds its name; a
  \<^verbatim>\<open>class\<close> evaluates its bases, runs its body in a scope of its own, and binds its
  name. A name is looked up in the class scope, then among the globals of the module,
  then among the builtins; a name bound nowhere raises \<^verbatim>\<open>NameError\<close>.
\<close>

datatype stmt =
    Import string
  | Def string "string list"
  | Class string "string list" "stmt list"

text \<open>The names a statement of a class body needs and the name it binds.\<close>

fun first_unbound :: "string list \<Rightarrow> string list \<Rightarrow> string option" where
  "first_unbound scope [] = None"
| "first_unbound scope (n # ns) =
     (if n \<in> set scope then first_unbound scope ns else Some n)"

fun exec_body :: "string list \<Rightarrow> stmt list \<Rightarrow> error + string list" where
  "exec_body scope [] = Inr scope"
| "exec_body scope (Import n # rest) = exec_body (n # scope) rest"
| "exec_body scope (Def n uses # rest) =
     (case first_unbound scope uses of
        Some u \<Rightarrow> Inl (NameError u)
      | None \<Rightarrow> exec_body (n # scope) rest)"
| "exec_body scope (Class n bases body # rest) =
     (case first_unbound scope bases of
        Some u \<Rightarrow> Inl (NameError u)
      | None \<Rightarrow> exec_body (n # scope) rest)"

fun exec_module :: "string list \<Rightarrow> stmt list \<Rightarrow> error + string list" where
  "exec_module scope [] = Inr scope"
| "exec_module scope (Import n # rest) = exec_module (n # scope) rest"
| "exec_module scope (Def n uses # rest) =
     (case first_unbound scope uses of
        Some u \<Rightarrow> Inl (NameError u)
      | None \<Rightarrow> exec_module (n # scope) rest)"
| "exec_module scope (Class n bases body # rest) =
     (case first_unbound scope bases of
        Some u \<Rightarrow> Inl (NameError u)
      | None \<Rightarrow>
          bind_err (exec_body scope body) (\<lambda>_.
          exec_module (n # scope) rest))"

text \<open>The statements of \<^verbatim>\<open>nce.py\<close>: four imports, \<^verbatim>\<open>take\<close>, and the two classes.
  Only \<^verbatim>\<open>NCELoss.forward\<close> has a decorator, \<^verbatim>\<open>@profile\<close> (line 63).\<close>

definition nce_module :: "stmt list" where
  "nce_module =
     [Import ''torch'', Import ''nn'', Import ''Variable'', Import ''F'',
      Def ''take'' [],
      Class ''NCELoss'' [''nn'']
        [Def ''__init__'' [], Def ''forward'' [''profile''], Def ''_get_prob'' []],
      Class ''IndexLinear'' [''nn'']
        [Def ''forward'' []]]"

text \<open>The builtins the module's own code refers to; \<open>injected\<close> are the names bound
  among the builtins from outside before the import.\<close>

definition python_builtins :: "string list" where
  "python_builtins = [''list'', ''next'', ''range'', ''super'', ''enumerate'']"

definition import_nce :: "string list \<Rightarrow> error + string list" where
  "import_nce injected = exec_module (python_builtins @ injected) nce_module"

text \<open>Any use of the module (constructing a loss, calling forward) comes after its
  import.\<close>

definition use_module :: "string list \<Rightarrow> error + 'a \<Rightarrow> error + 'a" where
  "use_module injected action = bind_err (import_nce injected) (\<lambda>_. action)"

subsection \<open>A concrete call\<close>

text \<open>The scenario of the specification: a vocabulary of five tokens, embeddings of
  three entries, the uniform noise distribution, two noise samples per example, a norm
  term of zero, the identity padded with zero rows as weight, a zero bias, and a batch of
  one example with target 2 whose noise draw is 0 and 1. Everything lives on the CUDA
  device.\<close>

definition ex_env :: env where
  "ex_env = \<lparr>cuda_available = True\<rparr>"

definition ex_decoder :: IndexLinear where
  "ex_decoder =
     \<lparr>weight = Tensor CUDA [[1, 0, 0], [0, 1, 0], [0, 0, 1], [0, 0, 0], [0, 0, 0]],
      bias = Tensor CUDA [0, 0, 0, 0, 0]\<rparr>"

definition ex_loss :: NCELoss where
  "ex_loss =
     \<lparr>noise = Tensor CUDA [1/5, 1/5, 1/5, 1/5, 1/5], noise_ratio = 2, norm_term = 0,
      ntokens = 5, size_average = True, decoder = ex_decoder\<rparr>"

definition ex_input :: mat where
  "ex_input = Tensor CUDA [[1, 2, 3]]"

definition ex_target :: idxs where
  "ex_target = Tensor CUDA [2]"

definition ex_sampler :: "nat \<Rightarrow> error + nat list" where
  "ex_sampler idx = Inr [0, 1]"

text \<open>The concrete call again, with every tensor in host memory.\<close>

definition host_loss :: NCELoss where
  "host_loss =
     \<lparr>noise = Tensor CPU [1/5, 1/5, 1/5, 1/5, 1/5], noise_ratio = 2, norm_term = 0,
      ntokens = 5, size_average = True,
      decoder =
        \<lparr>weight = Tensor CPU [[1, 0, 0], [0, 1, 0], [0, 0, 1], [0, 0, 0], [0, 0, 0]],
         bias = Tensor CPU [0, 0, 0, 0, 0]\<rparr>\<rparr>"

definition host_input :: mat where
  "host_input = Tensor CPU [[1, 2, 3]]"

definition host_target :: idxs where
  "host_target = Tensor CPU [2]"

section \<open>Properties\<close>

subsection \<open>The indexed projection\<close>

lemma bind_err_Inl [simp]: "bind_err (Inl e) f = Inl e"
  by (simp add: bind_err_def)

lemma bind_err_Inr [simp]: "bind_err (Inr x) f = f x"
  by (simp add: bind_err_def)

lemma index_select_ok:
  "dev ix = dev t \<Longrightarrow> list_all (\<lambda>i. i < length (dat t)) (dat ix) \<Longrightarrow>
   index_select t ix = Inr (Tensor (dev t) (map (\<lambda>i. dat t ! i) (dat ix)))"
  by (simp add: index_select_def)

lemma map2_nth_map:
  "list_all (\<lambda>i. i < length ws) is \<Longrightarrow> length bs = length ws \<Longrightarrow>
   map2 f (map (\<lambda>i. ws ! i) is) (map (\<lambda>i. bs ! i) is) = map (\<lambda>i. f (ws ! i) (bs ! i)) is"
  by (induction "is") auto

lemma map_nth_map2:
  "list_all (\<lambda>i. i < length ws) is \<Longrightarrow> length bs = length ws \<Longrightarrow>
   map (\<lambda>i. map2 f ws bs ! i) is = map (\<lambda>i. f (ws ! i) (bs ! i)) is"
  by (induction "is") auto

lemma IndexLinear_forward_ok:
  assumes "layer_shape self (length (dat x))" "dev x = dev (weight self)"
    "dev indices = dev x" "list_all (\<lambda>i. i < length (dat (weight self))) (dat indices)"
  shows "IndexLinear_forward self (unsqueeze0 x) indices
         = Inr (Tensor (dev x) [map (logit self (dat x)) (dat indices)])"
  using assms
  by (simp add: IndexLinear_forward_def layer_shape_def index_select_ok F_linear_def
      unsqueeze0_def list_all_iff map2_nth_map logit_def)

lemma dense_then_gather_ok:
  assumes "layer_shape self (length (dat x))" "dev x = dev (weight self)"
    "dev indices = dev x" "list_all (\<lambda>i. i < length (dat (weight self))) (dat indices)"
  shows "dense_then_gather self (unsqueeze0 x) indices
         = Inr (Tensor (dev x) [map (logit self (dat x)) (dat indices)])"
  using assms
  by (simp add: dense_then_gather_def layer_shape_def gather_def F_linear_def
      unsqueeze0_def list_all_iff map_nth_map2 logit_def)

text \<open>
  Claim C2. The indexed projection of an embedding is the dense projection onto the whole
  vocabulary followed by gathering the requested entries: both computations return the
  same result (the same error, where one is raised), and for indices of the vocabulary
  the result holds, for every index in order and once per occurrence, the entry
  \<open>dot x (weight row i) + bias i\<close>.
\<close>

theorem indexed_projection_is_gathered_dense:
  assumes "layer_shape self (length (dat x))" and "dev x = dev (weight self)"
  shows "IndexLinear_forward self (unsqueeze0 x) indices
           = dense_then_gather self (unsqueeze0 x) indices
         \<and> (dev indices = dev x \<and> list_all (\<lambda>i. i < length (dat (weight self))) (dat indices)
            \<longrightarrow> IndexLinear_forward self (unsqueeze0 x) indices
                  = Inr (Tensor (dev x) [map (logit self (dat x)) (dat indices)]))"
proof (cases "dev indices = dev x")
  case False
  with assms show ?thesis
    by (simp add: IndexLinear_forward_def dense_then_gather_def index_select_def
        F_linear_def gather_def unsqueeze0_def layer_shape_def list_all_iff)
next
  case same: True
  show ?thesis
  proof (cases "list_all (\<lambda>i. i < length (dat (weight self))) (dat indices)")
    case True
    with assms same show ?thesis
      by (simp add: IndexLinear_forward_ok dense_then_gather_ok)
  next
    case False
    with assms same show ?thesis
      by (auto simp add: IndexLinear_forward_def dense_then_gather_def index_select_def
          F_linear_def gather_def unsqueeze0_def layer_shape_def list_all_iff)
  qed
qed


theorem indexed_projection_witness:
  "layer_shape ex_decoder (length (dat (Tensor CUDA [1, 2, 3 :: real])))
   \<and> dev (Tensor CUDA [1, 2, 3 :: real]) = dev (weight ex_decoder)
   \<and> IndexLinear_forward ex_decoder (unsqueeze0 (Tensor CUDA [1, 2, 3])) (Tensor CUDA [2, 0, 2, 4])
     = dense_then_gather ex_decoder (unsqueeze0 (Tensor CUDA [1, 2, 3])) (Tensor CUDA [2, 0, 2, 4])
   \<and> IndexLinear_forward ex_decoder (unsqueeze0 (Tensor CUDA [1, 2, 3])) (Tensor CUDA [2, 0, 2, 4])
     = Inr (Tensor CUDA [[3, 1, 3, 0]])"
  using indexed_projection_is_gathered_dense
    [of ex_decoder "Tensor CUDA [1, 2, 3]" "Tensor CUDA [2, 0, 2, 4]"]
  by (auto simp add: ex_decoder_def layer_shape_def logit_def dot_def)

lemma get_prob_ok:
  assumes "layer_shape (decoder self) (length (dat x))"
    and "dev x = dev (weight (decoder self))"
    and "d = dev x" and "dev ns = dev x"
    and "t < length (dat (weight (decoder self)))"
    and "list_all (\<lambda>i. i < length (dat (weight (decoder self)))) (dat ns)"
  shows "get_prob self x (Tensor d [t]) ns
         = Inr (pseudo_prob self (dat x) t, map (pseudo_prob self (dat x)) (dat ns))"
proof -
  have "IndexLinear_forward (decoder self) (unsqueeze0 x) (Tensor d (t # dat ns))
        = Inr (Tensor (dev x) [map (logit (decoder self) (dat x)) (t # dat ns)])"
    using assms IndexLinear_forward_ok [of "decoder self" x "Tensor d (t # dat ns)"]
    by simp
  with assms show ?thesis
    by (simp add: get_prob_def cat_def view_flat_def tmap_def pseudo_prob_def)
qed

lemma loop_body_ok:
  assumes "cuda_available e"
    and "idx < length (dat inp)"
    and "layer_shape (decoder self) (length (dat inp ! idx))"
    and "dev inp = dev (weight (decoder self))"
    and "tdev = dev inp" and "dev (noise self) = dev inp"
    and "length (dat (noise self)) = length (dat (weight (decoder self)))"
    and "t < length (dat (noise self))"
    and "sampler idx = Inr d" and "length d = noise_ratio self"
    and "list_all (\<lambda>j. j < length (dat (noise self))) d"
    and "idx < length (dat dp)" and "idx < length (dat nq)" and "idx < length (dat np)"
    and "length (dat nq ! idx) = noise_ratio self"
    and "length (dat np ! idx) = noise_ratio self"
  shows "loop_body e self inp tdev sampler (idx, t) (dp, nq, np)
         = Inr (Tensor (dev dp) ((dat dp)[idx := pseudo_prob self (dat inp ! idx) t]),
                Tensor (dev nq) ((dat nq)[idx := map (pseudo_prob self (dat inp ! idx)) d]),
                Tensor (dev np) ((dat np)[idx := map (noise_probability self) d]))"
proof -
  have gp: "get_prob self (Tensor (dev inp) (dat inp ! idx)) (Tensor tdev [t])
              (Tensor (dev (noise self)) d)
            = Inr (pseudo_prob self (dat inp ! idx) t, map (pseudo_prob self (dat inp ! idx)) d)"
    using assms
      get_prob_ok [of self "Tensor (dev inp) (dat inp ! idx)" tdev "Tensor (dev (noise self)) d" t]
    by simp
  have ns: "index_select (noise self) (Tensor (dev (noise self)) d)
            = Inr (Tensor (dev (noise self)) (map (noise_probability self) d))"
    using assms by (simp add: index_select_def noise_probability_def)
  show ?thesis
    using assms gp ns
    by (simp add: loop_body_def multinomial_def synchronize_def select_def
        setitem_def setrow_def)
qed


lemma list_all_update:
  "list_all P xs \<Longrightarrow> P v \<Longrightarrow> list_all P (xs[i := v])"
  by (induction xs arbitrary: i) (auto split: nat.splits)

lemma loop_ok:
  assumes "cuda_available e"
    and "dev inp = dev (weight (decoder self))"
    and "tdev = dev inp" and "dev (noise self) = dev inp"
    and "length (dat (noise self)) = length (dat (weight (decoder self)))"
    and "list_all (\<lambda>x. layer_shape (decoder self) (length x)) (dat inp)"
  shows "list_all (\<lambda>t. t < length (dat (noise self))) ts \<Longrightarrow>
         (\<forall>idx. k \<le> idx \<and> idx < k + length ts \<longrightarrow> valid_draw self (sampler idx)) \<Longrightarrow>
         k + length ts \<le> length (dat inp) \<Longrightarrow>
         length (dat dp) = length (dat inp) \<Longrightarrow>
         length (dat nq) = length (dat inp) \<Longrightarrow>
         length (dat np) = length (dat inp) \<Longrightarrow>
         list_all (\<lambda>r. length r = noise_ratio self) (dat nq) \<Longrightarrow>
         list_all (\<lambda>r. length r = noise_ratio self) (dat np) \<Longrightarrow>
         loop e self inp tdev sampler (enumerate k ts) (dp, nq, np)
         = Inr (Tensor (dev dp)
                  (fold (\<lambda>(i, t) xs. xs[i := pseudo_prob self (dat inp ! i) t])
                     (enumerate k ts) (dat dp)),
                Tensor (dev nq)
                  (fold (\<lambda>(i, t) xs. xs[i := map (pseudo_prob self (dat inp ! i)) (draw_of sampler i)])
                     (enumerate k ts) (dat nq)),
                Tensor (dev np)
                  (fold (\<lambda>(i, t) xs. xs[i := map (noise_probability self) (draw_of sampler i)])
                     (enumerate k ts) (dat np)))"
proof (induction ts arbitrary: k dp nq np)
  case Nil
  show ?case by simp
next
  case (Cons t ts)
  have k: "k < length (dat inp)" using Cons.prems(3) by simp
  have "valid_draw self (sampler k)"
    using Cons.prems(2) by simp
  then obtain d where d: "sampler k = Inr d" "length d = noise_ratio self"
    "list_all (\<lambda>j. j < length (dat (noise self))) d"
    by (auto simp: valid_draw_def split: sum.splits)
  have dr: "draw_of sampler k = d" using d by (simp add: draw_of_def)
  have sh: "layer_shape (decoder self) (length (dat inp ! k))"
    using assms(6) k by (simp add: list_all_length)
  have rows: "length (dat nq ! k) = noise_ratio self" "length (dat np ! k) = noise_ratio self"
    using Cons.prems k by (simp_all add: list_all_length)
  have body: "loop_body e self inp tdev sampler (k, t) (dp, nq, np)
         = Inr (Tensor (dev dp) ((dat dp)[k := pseudo_prob self (dat inp ! k) t]),
                Tensor (dev nq) ((dat nq)[k := map (pseudo_prob self (dat inp ! k)) d]),
                Tensor (dev np) ((dat np)[k := map (noise_probability self) d]))"
    using assms Cons.prems k d sh rows
    by (intro loop_body_ok) simp_all
  have rest: "\<forall>idx. Suc k \<le> idx \<and> idx < Suc k + length ts \<longrightarrow> valid_draw self (sampler idx)"
    using Cons.prems(2) by simp
  have IH: "loop e self inp tdev sampler (enumerate (Suc k) ts)
              (Tensor (dev dp) ((dat dp)[k := pseudo_prob self (dat inp ! k) t]),
               Tensor (dev nq) ((dat nq)[k := map (pseudo_prob self (dat inp ! k)) d]),
               Tensor (dev np) ((dat np)[k := map (noise_probability self) d]))
            = Inr (Tensor (dev dp)
                  (fold (\<lambda>(i, t) xs. xs[i := pseudo_prob self (dat inp ! i) t])
                     (enumerate (Suc k) ts) ((dat dp)[k := pseudo_prob self (dat inp ! k) t])),
                Tensor (dev nq)
                  (fold (\<lambda>(i, t) xs. xs[i := map (pseudo_prob self (dat inp ! i)) (draw_of sampler i)])
                     (enumerate (Suc k) ts) ((dat nq)[k := map (pseudo_prob self (dat inp ! k)) d])),
                Tensor (dev np)
                  (fold (\<lambda>(i, t) xs. xs[i := map (noise_probability self) (draw_of sampler i)])
                     (enumerate (Suc k) ts) ((dat np)[k := map (noise_probability self) d])))"
    using Cons.prems rest d
    by (subst Cons.IH) (simp_all add: list_all_update)
  show ?case
    by (simp add: body IH dr)
qed

lemma fold_update_enumerate:
  "k + length ts \<le> length xs \<Longrightarrow>
   fold (\<lambda>(i, t) xs. xs[i := f i t]) (enumerate k ts) xs
   = take k xs @ map (\<lambda>(i, t). f i t) (enumerate k ts) @ drop (k + length ts) xs"
proof (induction ts arbitrary: k xs)
  case Nil
  then show ?case by simp
next
  case (Cons t ts)
  have "take (Suc k) (xs[k := f k t]) = take k xs @ [f k t]"
    using Cons.prems by (simp add: take_Suc_conv_app_nth)
  with Cons show ?case by simp
qed

lemma map_enumerate_nth:
  "map (\<lambda>(i, t). f i t) (enumerate 0 ts) = map (\<lambda>i. f i (ts ! i)) [0..<length ts]"
  by (rule nth_equalityI) (simp_all add: nth_enumerate_eq)

lemma fold_update_all:
  "length xs = length ts \<Longrightarrow>
   fold (\<lambda>(i, t) xs. xs[i := f i t]) (enumerate 0 ts) xs
   = map (\<lambda>i. f i (ts ! i)) [0..<length ts]"
  by (simp add: fold_update_enumerate map_enumerate_nth)


lemma map2_map_same:
  "map2 f (map g xs) (map h xs) = map (\<lambda>x. f (g x) (h x)) xs"
  by (induction xs) simp_all

lemma rnn_loss_ok:
  assumes "dev dp = dev (noise self)" and "dev target = dev (noise self)"
    and "dat dp = map p [0..<n]" and "dat target = map t [0..<n]"
    and "\<forall>i<n. t i < length (dat (noise self))"
  shows "rnn_loss self dp target
         = Inr (Tensor (dev dp)
             (map (\<lambda>i. ln (p i / (p i + real (noise_ratio self) * noise_probability self (t i))))
                [0..<n]))"
  using assms
  by (simp add: rnn_loss_def index_select_def binop_def tmap_def list_all_iff
      noise_probability_def map2_map_same o_def)

lemma noise_row:
  "sum_list (map ln (map2 (/) (map (\<lambda>p. k * p) (map g d))
                       (map2 (+) (map h d) (map (\<lambda>p. k * p) (map g d)))))
   = sum_list (map (\<lambda>j. ln (k * g j / (h j + k * g j))) d)"
  by (induction d) simp_all

lemma noise_loss_ok:
  assumes "dev np = dev nq"
    and "dat nq = map (\<lambda>i. map (h i) (d i)) [0..<n]"
    and "dat np = map (\<lambda>i. map g (d i)) [0..<n]"
  shows "noise_loss self np nq
         = Inr (Tensor (dev nq)
             (map (\<lambda>i. sum_list (map (\<lambda>j. ln (real (noise_ratio self) * g j
                                               / (h i j + real (noise_ratio self) * g j))) (d i)))
                [0..<n]))"
  using assms
  by (simp add: noise_loss_def binop2_def tmap2_def sum_dim1_def Let_def map2_map_same o_def
      noise_row [unfolded map_map o_def])


lemma zip3_nth:
  "length xs = n \<Longrightarrow> length ts = n \<Longrightarrow>
   zip xs (zip ts (map f [0..<n])) = map (\<lambda>i. (xs ! i, ts ! i, f i)) [0..<n]"
  by (rule nth_equalityI) simp_all

lemma nce_loss_sum_index:
  assumes "length xs = length ts"
  shows "nce_loss_sum self xs ts (draws_of sampler (length ts))
         = - sum_list (map (\<lambda>i. data_term self (xs ! i) (ts ! i)
                                 + noise_term self (xs ! i) (draw_of sampler i))
                          [0..<length ts])"
  using assms
  by (simp add: nce_loss_sum_def draws_of_def zip3_nth o_def)

lemma forward_buffers:
  assumes "forward_ready e self inp target sampler"
  shows "loop e self inp (dev target) sampler (enumerate 0 (dat target))
           (Tensor CUDA (replicate (length (dat target)) 0),
            Tensor CUDA (replicate (length (dat target)) (replicate (noise_ratio self) 0)),
            Tensor CUDA (replicate (length (dat target)) (replicate (noise_ratio self) 0)))
         = Inr (Tensor CUDA
                  (map (\<lambda>i. pseudo_prob self (dat inp ! i) (dat target ! i))
                     [0..<length (dat target)]),
                Tensor CUDA
                  (map (\<lambda>i. map (pseudo_prob self (dat inp ! i)) (draw_of sampler i))
                     [0..<length (dat target)]),
                Tensor CUDA
                  (map (\<lambda>i. map (noise_probability self) (draw_of sampler i))
                     [0..<length (dat target)]))"
proof -
  have "loop e self inp (dev target) sampler (enumerate 0 (dat target))
           (Tensor CUDA (replicate (length (dat target)) 0),
            Tensor CUDA (replicate (length (dat target)) (replicate (noise_ratio self) 0)),
            Tensor CUDA (replicate (length (dat target)) (replicate (noise_ratio self) 0)))
        = Inr (Tensor CUDA
                  (fold (\<lambda>(i, t) xs. xs[i := pseudo_prob self (dat inp ! i) t])
                     (enumerate 0 (dat target)) (replicate (length (dat target)) 0)),
                Tensor CUDA
                  (fold (\<lambda>(i, t) xs. xs[i := map (pseudo_prob self (dat inp ! i)) (draw_of sampler i)])
                     (enumerate 0 (dat target))
                     (replicate (length (dat target)) (replicate (noise_ratio self) 0))),
                Tensor CUDA
                  (fold (\<lambda>(i, t) xs. xs[i := map (noise_probability self) (draw_of sampler i)])
                     (enumerate 0 (dat target))
                     (replicate (length (dat target)) (replicate (noise_ratio self) 0))))"
    using assms
    by (subst loop_ok) (auto simp add: forward_ready_def list_all_iff)
  then show ?thesis
    by (simp add: fold_update_all)
qed

lemma forward_ok:
  assumes "forward_ready e self inp target sampler"
  shows "forward e self inp target sampler
         = Inr (nce_loss_spec self (dat inp) (dat target)
                  (draws_of sampler (length (dat target))))"
proof -
  let ?n = "length (dat target)"
  let ?p = "\<lambda>i. pseudo_prob self (dat inp ! i) (dat target ! i)"
  have len: "length (dat inp) = ?n" and av: "cuda_available e"
    and dn: "dev (noise self) = CUDA" and dt: "dev target = CUDA"
    and rng: "\<forall>i<?n. dat target ! i < length (dat (noise self))"
    using assms by (auto simp add: forward_ready_def list_all_length)
  have rl: "rnn_loss self (Tensor CUDA (map ?p [0..<?n])) target
            = Inr (Tensor CUDA
                (map (\<lambda>i. ln (?p i / (?p i + real (noise_ratio self)
                                             * noise_probability self (dat target ! i))))
                   [0..<?n]))"
    using dn dt rng
      rnn_loss_ok [of "Tensor CUDA (map ?p [0..<?n])" self target ?p ?n "\<lambda>i. dat target ! i"]
    by (simp add: map_nth)
  have nl: "noise_loss self
              (Tensor CUDA (map (\<lambda>i. map (noise_probability self) (draw_of sampler i)) [0..<?n]))
              (Tensor CUDA (map (\<lambda>i. map (pseudo_prob self (dat inp ! i)) (draw_of sampler i)) [0..<?n]))
            = Inr (Tensor CUDA
                (map (\<lambda>i. sum_list (map (\<lambda>j. ln (real (noise_ratio self) * noise_probability self j
                                 / (pseudo_prob self (dat inp ! i) j
                                    + real (noise_ratio self) * noise_probability self j)))
                              (draw_of sampler i)))
                   [0..<?n]))"
    by (subst noise_loss_ok
        [where n = ?n and d = "draw_of sampler" and g = "noise_probability self"
           and h = "\<lambda>i. pseudo_prob self (dat inp ! i)"]) simp_all
  show ?thesis
    using len av
    by (simp add: forward_def cuda_def zeros_def zeros2_def synchronize_def
        forward_buffers [OF assms] rl nl binop_def tsum_def map2_map_same
        nce_loss_spec_def nce_loss_sum_index data_term_def noise_term_def)
qed

subsection \<open>The loss\<close>

lemma ex_ready: "forward_ready ex_env ex_loss ex_input ex_target ex_sampler"
  by (simp add: forward_ready_def ex_env_def ex_loss_def ex_input_def ex_target_def
      ex_sampler_def ex_decoder_def layer_shape_def valid_draw_def)

text \<open>
  Claim C1. A forward call that has what it needs returns the negated sum, over the
  examples, of the data term and the noise term of the specification, divided by the
  number of examples when \<open>size_average\<close> is set. The data term of an example is
  \<open>ln (p t / (p t + K * noise t))\<close> for its target \<open>t\<close>, the noise term is the sum over
  its \<open>K\<close> noise samples \<open>j\<close> of \<open>ln (K * noise j / (p j + K * noise j))\<close>, where \<open>p\<close> is
  the pseudo probability under the model and \<open>K\<close> the noise ratio.
\<close>

theorem nce_loss_formula:
  assumes "forward_ready e self inp target sampler"
  shows "forward e self inp target sampler
         = Inr (let total = - sum_list
                      (map (\<lambda>(x, t, d). data_term self x t + noise_term self x d)
                         (zip (dat inp)
                            (zip (dat target) (draws_of sampler (length (dat target))))))
                in if size_average self then total / real (length (dat target)) else total)"
  using forward_ok [OF assms]
  by (simp add: nce_loss_spec_def nce_loss_sum_def Let_def)

theorem nce_loss_formula_witness:
  "forward_ready ex_env ex_loss ex_input ex_target ex_sampler
   \<and> forward ex_env ex_loss ex_input ex_target ex_sampler
     = Inr (- (ln (exp 3 / (exp 3 + 2 * (1/5)))
               + (ln (2 * (1/5) / (exp 1 + 2 * (1/5)))
                  + ln (2 * (1/5) / (exp 2 + 2 * (1/5))))) / 1)"
  using nce_loss_formula [OF ex_ready] ex_ready
  by (simp add: ex_loss_def ex_input_def ex_target_def ex_sampler_def ex_decoder_def
      draws_of_def draw_of_def data_term_def noise_term_def pseudo_prob_def logit_def
      dot_def noise_probability_def)

subsection \<open>The layout of an example\<close>



subsection \<open>Reduction and the shape assertion\<close>

lemma map_sum_bind_err:
  "map_sum id g (bind_err m f) = bind_err m (\<lambda>x. map_sum id g (f x))"
  by (cases m) simp_all

lemma get_prob_size_average:
  "get_prob (self\<lparr>size_average := b\<rparr>) = get_prob self"
  by (intro ext) (simp add: get_prob_def)

lemma loop_body_size_average:
  "loop_body e (self\<lparr>size_average := b\<rparr>) = loop_body e self"
  by (intro ext) (simp add: loop_body_def get_prob_size_average)

lemma loop_size_average:
  "loop e (self\<lparr>size_average := b\<rparr>) inp tdev sampler its
   = loop e self inp tdev sampler its"
proof (induction its)
  case Nil
  show ?case by (intro ext) simp
next
  case (Cons it its)
  show ?case by (intro ext) (simp add: Cons.IH loop_body_size_average)
qed

lemma rnn_loss_size_average:
  "rnn_loss (self\<lparr>size_average := b\<rparr>) = rnn_loss self"
  by (intro ext) (simp add: rnn_loss_def)

lemma noise_loss_size_average:
  "noise_loss (self\<lparr>size_average := b\<rparr>) = noise_loss self"
  by (intro ext) (simp add: noise_loss_def)

text \<open>
  Claim C4. For a batch of at least one example, on the same inputs and noise draws, the
  call with \<open>size_average\<close> set raises what the call without it raises, or returns its
  loss divided by the number of examples.
\<close>

theorem size_average_divides_by_batch:
  assumes "1 \<le> length (dat target)"
  shows "forward e (self\<lparr>size_average := True\<rparr>) inp target sampler
         = map_sum id (\<lambda>loss. loss / real (length (dat target)))
             (forward e (self\<lparr>size_average := False\<rparr>) inp target sampler)"
  by (simp add: forward_def map_sum_bind_err loop_size_average rnn_loss_size_average
      noise_loss_size_average Let_def)

theorem size_average_witness:
  "1 \<le> length (dat (Tensor CUDA [2, 0 :: nat]))
   \<and> forward ex_env (ex_loss\<lparr>size_average := False\<rparr>)
        (Tensor CUDA [[1, 2, 3], [0, 0, 0]]) (Tensor CUDA [2, 0]) ex_sampler
     = Inr (- (ln (exp 3 / (exp 3 + 2 / 5))
               + (ln (2 / 5 / (exp 1 + 2 / 5)) + ln (2 / 5 / (exp 2 + 2 / 5)))
               + (ln (1 / (1 + 2 / 5)) + (ln (2 / 5 / (1 + 2 / 5)) + ln (2 / 5 / (1 + 2 / 5))))))
   \<and> forward ex_env (ex_loss\<lparr>size_average := True\<rparr>)
        (Tensor CUDA [[1, 2, 3], [0, 0, 0]]) (Tensor CUDA [2, 0]) ex_sampler
     = Inr (- (ln (exp 3 / (exp 3 + 2 / 5))
               + (ln (2 / 5 / (exp 1 + 2 / 5)) + ln (2 / 5 / (exp 2 + 2 / 5)))
               + (ln (1 / (1 + 2 / 5)) + (ln (2 / 5 / (1 + 2 / 5)) + ln (2 / 5 / (1 + 2 / 5)))))
            / 2)"
proof -
  have r: "forward_ready ex_env (ex_loss\<lparr>size_average := False\<rparr>)
             (Tensor CUDA [[1, 2, 3], [0, 0, 0]]) (Tensor CUDA [2, 0]) ex_sampler"
    by (simp add: forward_ready_def ex_env_def ex_loss_def 
        ex_sampler_def ex_decoder_def layer_shape_def valid_draw_def upt_conv_Cons)
  have f: "forward ex_env (ex_loss\<lparr>size_average := False\<rparr>)
        (Tensor CUDA [[1, 2, 3], [0, 0, 0]]) (Tensor CUDA [2, 0]) ex_sampler
     = Inr (- (ln (exp 3 / (exp 3 + 2 / 5))
               + (ln (2 / 5 / (exp 1 + 2 / 5)) + ln (2 / 5 / (exp 2 + 2 / 5)))
               + (ln (1 / (1 + 2 / 5)) + (ln (2 / 5 / (1 + 2 / 5)) + ln (2 / 5 / (1 + 2 / 5))))))"
    using forward_ok [OF r]
    by (simp add: ex_loss_def ex_sampler_def ex_decoder_def
      draws_of_def draw_of_def data_term_def noise_term_def pseudo_prob_def logit_def
      dot_def noise_probability_def nce_loss_spec_def nce_loss_sum_def upt_conv_Cons)
  show ?thesis
    using size_average_divides_by_batch
      [of "Tensor CUDA [2, 0]" ex_env ex_loss "Tensor CUDA [[1, 2, 3], [0, 0, 0]]" ex_sampler] f
    by simp
qed

text \<open>
  Claim C5. A call whose target has not as many entries as the input has rows fails the
  assertion of line 79, the first statement of the function, whatever else it is given.
\<close>

theorem shape_mismatch_rejected:
  assumes "length (dat target) \<noteq> length (dat inp)"
  shows "forward e self inp target sampler = Inl AssertionError"
  using assms by (simp add: forward_def)

theorem shape_mismatch_witness:
  "length (dat (Tensor CUDA [2, 0 :: nat])) \<noteq> length (dat ex_input)
   \<and> forward ex_env ex_loss ex_input (Tensor CUDA [2, 0]) ex_sampler = Inl AssertionError"
  using shape_mismatch_rejected [of "Tensor CUDA [2, 0]" ex_input ex_env ex_loss ex_sampler]
  by (simp add: ex_input_def)

subsection \<open>Devices\<close>

lemma bind_err_Inr_iff:
  "bind_err m f = Inr y \<longleftrightarrow> (\<exists>x. m = Inr x \<and> f x = Inr y)"
  by (cases m) simp_all

lemma loop_body_Inr:
  assumes "loop_body e self inp tdev sampler (idx, t) (dp, nq, np) = Inr bufs"
  shows "dev (fst bufs) = dev dp \<and> tdev = dev (noise self)
         \<and> dev (weight (decoder self)) = dev (noise self) \<and> dev inp = dev (noise self)
         \<and> dev (bias (decoder self)) = dev (noise self)"
  using assms
  by (auto simp add: loop_body_def bind_err_Inr_iff multinomial_def select_def get_prob_def
      cat_def IndexLinear_forward_def index_select_def F_linear_def unsqueeze0_def
      setitem_def setrow_def
      split: sum.splits if_splits list.splits)

lemma loop_dev:
  "loop e self inp tdev sampler its bufs = Inr bufs' \<Longrightarrow> dev (fst bufs') = dev (fst bufs)"
proof (induction its arbitrary: bufs)
  case Nil
  then show ?case by simp
next
  case (Cons it its)
  then obtain mid where b: "loop_body e self inp tdev sampler it bufs = Inr mid"
    and l: "loop e self inp tdev sampler its mid = Inr bufs'"
    by (auto simp add: bind_err_Inr_iff)
  have "dev (fst mid) = dev (fst bufs)"
    using loop_body_Inr [of e self inp tdev sampler "fst it" "snd it" "fst bufs"
        "fst (snd bufs)" "snd (snd bufs)" mid] b
    by simp
  with Cons.IH [OF l] show ?case by simp
qed

lemma loop_first:
  assumes "loop e self inp tdev sampler (it # its) bufs = Inr bufs'"
  shows "tdev = dev (noise self) \<and> dev (weight (decoder self)) = dev (noise self)
         \<and> dev inp = dev (noise self) \<and> dev (bias (decoder self)) = dev (noise self)"
proof -
  from assms obtain mid where b: "loop_body e self inp tdev sampler it bufs = Inr mid"
    by (auto simp add: bind_err_Inr_iff)
  then show ?thesis
    using loop_body_Inr [of e self inp tdev sampler "fst it" "snd it" "fst bufs"
        "fst (snd bufs)" "snd (snd bufs)" mid]
    by simp
qed

lemma rnn_loss_Inr:
  assumes "rnn_loss self dp target = Inr r"
  shows "dev target = dev (noise self) \<and> dev dp = dev (noise self)"
  using assms
  by (auto simp add: rnn_loss_def bind_err_Inr_iff index_select_def binop_def tmap_def
      split: if_splits)

text \<open>
  Claim C9, as the code has it. The forward pass allocates its three buffers with
  \<^verbatim>\<open>.cuda()\<close> and synchronises with the CUDA device: a call returns a loss only where a
  CUDA device is available and the noise distribution lives on it, and, for a batch that
  is not empty, the targets, the embeddings and the parameters of the decoder too.
\<close>

theorem forward_needs_cuda:
  assumes "forward e self inp target sampler = Inr loss"
  shows "cuda_available e \<and> dev (noise self) = CUDA
         \<and> (dat target \<noteq> [] \<longrightarrow>
              dev target = CUDA \<and> dev inp = CUDA \<and> dev (weight (decoder self)) = CUDA
              \<and> dev (bias (decoder self)) = CUDA)"
proof -
  from assms have av: "cuda_available e"
    by (auto simp add: forward_def cuda_def bind_err_Inr_iff split: if_splits)
  from assms av obtain bufs rl where
    l: "loop e self inp (dev target) sampler (enumerate 0 (dat target))
          (Tensor CUDA (dat (zeros (length (dat target)))),
           Tensor CUDA (dat (zeros2 (length (dat target)) (noise_ratio self))),
           Tensor CUDA (dat (zeros2 (length (dat target)) (noise_ratio self)))) = Inr bufs"
    and r: "rnn_loss self (fst bufs) target = Inr rl"
    by (auto simp add: forward_def cuda_def synchronize_def bind_err_Inr_iff split: if_splits)
  have "dev (fst bufs) = CUDA"
    using loop_dev [OF l] by simp
  with rnn_loss_Inr [OF r] have n: "dev (noise self) = CUDA" "dev target = CUDA"
    by simp_all
  have "dev inp = CUDA \<and> dev (weight (decoder self)) = CUDA
        \<and> dev (bias (decoder self)) = CUDA" if "dat target \<noteq> []"
  proof -
    from that obtain t ts where "dat target = t # ts"
      by (cases "dat target") auto
    with l n show ?thesis
      using loop_first [of e self inp "dev target" sampler "(0, t)" "enumerate 1 ts"]
      by simp
  qed
  with av n show ?thesis by simp
qed

theorem forward_needs_cuda_witness:
  "forward ex_env ex_loss ex_input ex_target ex_sampler
     = Inr (- (ln (exp 3 / (exp 3 + 2 / 5))
               + (ln (2 / 5 / (exp 1 + 2 / 5)) + ln (2 / 5 / (exp 2 + 2 / 5)))))
   \<and> cuda_available ex_env \<and> dev (noise ex_loss) = CUDA \<and> dev ex_target = CUDA
   \<and> dat ex_target \<noteq> [] \<and> dev ex_input = CUDA \<and> dev (weight (decoder ex_loss)) = CUDA
   \<and> dev (bias (decoder ex_loss)) = CUDA"
proof -
  have r: "forward_ready ex_env ex_loss ex_input ex_target ex_sampler"
    by (simp add: forward_ready_def ex_env_def ex_loss_def ex_input_def ex_target_def
        ex_sampler_def ex_decoder_def layer_shape_def valid_draw_def)
  have f: "forward ex_env ex_loss ex_input ex_target ex_sampler
     = Inr (- (ln (exp 3 / (exp 3 + 2 / 5))
               + (ln (2 / 5 / (exp 1 + 2 / 5)) + ln (2 / 5 / (exp 2 + 2 / 5)))))"
    using forward_ok [OF r]
    by (simp add: ex_loss_def ex_input_def ex_target_def ex_sampler_def ex_decoder_def
      draws_of_def draw_of_def data_term_def noise_term_def pseudo_prob_def logit_def
      dot_def noise_probability_def nce_loss_spec_def nce_loss_sum_def)
  have t: "dat ex_target \<noteq> []" by (simp add: ex_target_def)
  show ?thesis
    using forward_needs_cuda [OF f] f t by simp
qed

theorem host_forward_counterexample:
  "forward \<lparr>cuda_available = False\<rparr> host_loss host_input host_target ex_sampler
     = Inl CudaError
   \<and> forward \<lparr>cuda_available = True\<rparr> host_loss host_input host_target ex_sampler
     = Inl DeviceMismatch"
  by (simp add: forward_def host_loss_def host_input_def host_target_def ex_sampler_def
      cuda_def zeros_def zeros2_def synchronize_def loop_body_def multinomial_def select_def
      get_prob_def cat_def IndexLinear_forward_def index_select_def F_linear_def
      unsqueeze0_def view_flat_def tmap_def setitem_def setrow_def rnn_loss_def binop_def)

subsection \<open>Construction and import\<close>

text \<open>
  Claim C6 fails on the code. Line 60 asks for the truth value of the tensor passed as
  \<^verbatim>\<open>decoder_weight\<close>, which a tensor with entries does not have: the construction with
  a weight of two rows and two columns raises before line 61 can tie it.
\<close>

theorem tied_weight_construction_fails:
  "init 2 2 (Tensor CPU [1/2, 1/2]) 10 9 True (Some (Tensor CPU [[1, 0], [0, 1]]))
     (\<lambda>i j. 0) (\<lambda>i. 0)
   = Inl AmbiguousTruth"
  by (simp add: init_def tensor_truth_def)

text \<open>
  Claim C8, as the code has it. The constructor does not look at the noise distribution:
  without a tied weight it succeeds for every noise vector, and stores the vector as it
  was given.
\<close>

theorem invalid_noise_accepted:
  "init v em nz k nt sa None iw ib
   = Inr \<lparr>noise = nz, noise_ratio = k, norm_term = nt, ntokens = v, size_average = sa,
          decoder = new_IndexLinear em v iw ib\<rparr>"
  by (simp add: init_def)

theorem invalid_noise_counterexample:
  "init 2 1 (Tensor CPU [- 1, 0]) 10 9 True None (\<lambda>i j. 0) (\<lambda>i. 0)
   = Inr \<lparr>noise = Tensor CPU [- 1, 0], noise_ratio = 10, norm_term = 9, ntokens = 2,
          size_average = True,
          decoder = \<lparr>weight = Tensor CPU [[0], [0]], bias = Tensor CPU [0, 0]\<rparr>\<rparr>
   \<and> init 2 1 (Tensor CPU [0, 0]) 10 9 True None (\<lambda>i j. 0) (\<lambda>i. 0)
   = Inr \<lparr>noise = Tensor CPU [0, 0], noise_ratio = 10, norm_term = 9, ntokens = 2,
          size_average = True,
          decoder = \<lparr>weight = Tensor CPU [[0], [0]], bias = Tensor CPU [0, 0]\<rparr>\<rparr>"
  by (simp add: init_def new_IndexLinear_def upt_conv_Cons)

text \<open>
  Claim C10. The decorator of \<^verbatim>\<open>NCELoss.forward\<close> is evaluated when the class
  statement runs. With no \<^verbatim>\<open>profile\<close> bound from outside, importing the module raises
  \<^verbatim>\<open>NameError\<close> for that name, and so does every use of the module; with it bound, the
  import goes through and binds the two classes.
\<close>

theorem import_needs_profile:
  "(''profile'' \<notin> set injected \<longrightarrow>
      import_nce injected = Inl (NameError ''profile'')
      \<and> use_module injected action = Inl (NameError ''profile''))
   \<and> (''profile'' \<in> set injected \<longrightarrow>
      import_nce injected
      = Inr (''IndexLinear'' # ''NCELoss'' # ''take'' # ''F'' # ''Variable'' # ''nn''
             # ''torch'' # python_builtins @ injected))"
  by (simp add: import_nce_def use_module_def nce_module_def python_builtins_def bind_err_def)

theorem import_needs_profile_witness:
  "''profile'' \<notin> set []
   \<and> import_nce [] = Inl (NameError ''profile'')
   \<and> use_module [] (init_default 5 3 (Tensor CPU [1/5, 1/5, 1/5, 1/5, 1/5]) (\<lambda>i j. 0) (\<lambda>i. 0))
     = Inl (NameError ''profile'')
   \<and> ''profile'' \<in> set [''profile'']
   \<and> import_nce [''profile'']
     = Inr (''IndexLinear'' # ''NCELoss'' # ''take'' # ''F'' # ''Variable'' # ''nn''
            # ''torch'' # python_builtins @ [''profile''])"
  using import_needs_profile [of "[]"
      "init_default 5 3 (Tensor CPU [1/5, 1/5, 1/5, 1/5, 1/5]) (\<lambda>i j. 0) (\<lambda>i. 0)"]
    import_needs_profile [of "[''profile'']"
      "init_default 5 3 (Tensor CPU [1/5, 1/5, 1/5, 1/5, 1/5]) (\<lambda>i j. 0) (\<lambda>i. 0)"]
  by simp

end
